theory Spec2Isabelle
  imports Complex_Main "HOL-Library.Word" "HOL-Library.Sublist"
begin

section \<open>JavaScript strings and the built-ins the code calls\<close>

text \<open>
  A JavaScript string is a sequence of UTF-16 code units. ASCII literals of the source are
  written with \<open>js\<close>; every other code unit of a literal is written as a numeral.
  Regular expressions without the \<open>u\<close> flag, \<open>split\<close>, \<open>trim\<close> and \<open>===\<close> all work on
  code units.
\<close>

type_synonym jschar = "16 word"
type_synonym jsstring = "jschar list"

definition js :: "string \<Rightarrow> jsstring" where
  "js s = map (\<lambda>c. word_of_nat (of_char c)) s"

text \<open>
  A value of type \<open>string | undefined\<close> (or \<open>string | null\<close>) is a \<open>jsstring option\<close>.
  It is falsy when it is absent or the empty string; \<open>a || b\<close> yields \<open>a\<close> when \<open>a\<close> is
  truthy and \<open>b\<close> otherwise.
\<close>

definition truthy :: "jsstring option \<Rightarrow> bool" where
  "truthy v = (case v of None \<Rightarrow> False | Some s \<Rightarrow> s \<noteq> [])"

definition js_or :: "jsstring option \<Rightarrow> jsstring option \<Rightarrow> jsstring option" where
  "js_or a b = (if truthy a then a else b)"

definition or_default :: "jsstring option \<Rightarrow> jsstring \<Rightarrow> jsstring" where
  "or_default a d = (case js_or a (Some d) of None \<Rightarrow> d | Some s \<Rightarrow> s)"

text \<open>\<open>s.split(sep)\<close> for a one-code-unit separator; the result is never empty.\<close>

fun split_js :: "'a \<Rightarrow> 'a list \<Rightarrow> 'a list list" where
  "split_js sep [] = [] # []"
| "split_js sep (c # cs) =
     (if c = sep then [] # split_js sep cs
      else (case split_js sep cs of [] \<Rightarrow> [c] # [] | w # ws \<Rightarrow> (c # w) # ws))"

text \<open>\<open>xs[i]\<close>: reading past the end of an array gives \<open>undefined\<close>, it does not raise.\<close>

fun at_index :: "'a list \<Rightarrow> nat \<Rightarrow> 'a option" where
  "at_index [] n = None"
| "at_index (x # xs) 0 = Some x"
| "at_index (x # xs) (Suc n) = at_index xs n"

text \<open>
  \<open>s.replace(/pat/g, rep)\<close> for a literal, non-empty pattern: a left-to-right scan that
  replaces each match and resumes after it. (With an empty pattern nothing is replaced here;
  the source never uses one.)
\<close>

fun replace_all :: "'a list \<Rightarrow> 'a list \<Rightarrow> 'a list \<Rightarrow> 'a list" where
  "replace_all pat rep [] = []"
| "replace_all pat rep (c # cs) =
     (if pat \<noteq> [] \<and> prefix pat (c # cs)
      then rep @ replace_all pat rep (drop (length pat) (c # cs))
      else c # replace_all pat rep cs)"

text \<open>
  \<open>s.trim()\<close> removes the ECMAScript WhiteSpace and LineTerminator code units from both
  ends of the string.
\<close>

definition is_white_space :: "jschar \<Rightarrow> bool" where
  "is_white_space c \<longleftrightarrow>
     c \<in> {0x9, 0xA, 0xB, 0xC, 0xD, 0x20, 0xA0, 0x1680, 0x2000, 0x2001, 0x2002, 0x2003,
          0x2004, 0x2005, 0x2006, 0x2007, 0x2008, 0x2009, 0x200A, 0x2028, 0x2029, 0x202F,
          0x205F, 0x3000, 0xFEFF}"

definition trim :: "jsstring \<Rightarrow> jsstring" where
  "trim s = rev (dropWhile is_white_space (rev (dropWhile is_white_space s)))"

text \<open>\<open>s.slice(-n)\<close>: the last \<open>n\<close> code units, or all of \<open>s\<close> when it is shorter.\<close>

definition slice_last :: "nat \<Rightarrow> jsstring \<Rightarrow> jsstring" where
  "slice_last n s = drop (length s - n) s"

section \<open>The external document store\<close>

text \<open>
  A document is a finite record of string fields; the store maps a collection name and a
  document id to a document. Each call to the store may fail: the failure the call meets, if
  any, is an argument of the model, and a failed write leaves the store as it was.
\<close>

datatype error = Error jsstring

type_synonym document = "string \<rightharpoonup> jsstring"
type_synonym doc_path = "jsstring \<times> jsstring"
type_synonym firestore = "doc_path \<rightharpoonup> document"

definition doc :: "string \<Rightarrow> jsstring \<Rightarrow> doc_path" where
  "doc collection ident = (js collection, ident)"

definition getDoc :: "error option \<Rightarrow> firestore \<Rightarrow> doc_path \<Rightarrow> error + document option" where
  "getDoc fault db p = (case fault of Some e \<Rightarrow> Inl e | None \<Rightarrow> Inr (db p))"

definition setDoc :: "error option \<Rightarrow> firestore \<Rightarrow> doc_path \<Rightarrow> document \<Rightarrow> error + firestore" where
  "setDoc fault db p d = (case fault of Some e \<Rightarrow> Inl e | None \<Rightarrow> Inr (db(p \<mapsto> d)))"

definition setDoc_merge ::
  "error option \<Rightarrow> firestore \<Rightarrow> doc_path \<Rightarrow> document \<Rightarrow> error + firestore" where
  "setDoc_merge fault db p d =
     (case fault of
        Some e \<Rightarrow> Inl e
      | None \<Rightarrow> Inr (db(p \<mapsto> (case db p of None \<Rightarrow> d | Some old \<Rightarrow> old ++ d))))"

section \<open>The AI service layer\<close>

subsection \<open>Credential resolver\<close>

record ai_env =
  VITE_GEMINI_API_KEY :: "jsstring option"
  API_KEY :: "jsstring option"

record ai_client =
  apiKey :: jsstring

text \<open>
  \<open>getAIClient\<close> (the same in both copies of the service module, \<^verbatim>\<open>part_000\<close> and
  \<^verbatim>\<open>part_001\<close>): the environment value first, overridden by the \<open>geminiApiKey\<close> field of
  \<open>settings/global_config\<close> when the document exists and the field is truthy; an exception
  while reading is caught and nothing else happens (console output is not modelled, here and
  below).
\<close>

definition getAIClient :: "ai_env \<Rightarrow> error option \<Rightarrow> firestore \<Rightarrow> ai_client" where
  "getAIClient env fault db =
     (let apiKey0 = js_or (VITE_GEMINI_API_KEY env) (API_KEY env);
          apiKey1 =
            (case getDoc fault db (doc ''settings'' (js ''global_config'')) of
               Inl e \<Rightarrow> apiKey0
             | Inr docSnap \<Rightarrow>
                 (case docSnap of
                    None \<Rightarrow> apiKey0
                  | Some data \<Rightarrow>
                      if truthy (data ''geminiApiKey'') then data ''geminiApiKey''
                      else apiKey0))
      in \<lparr>apiKey = or_default apiKey1 []\<rparr>)"

subsection \<open>Requests to the generation API\<close>

datatype part =
  TextPart jsstring
| InlineData jsstring "jsstring option"

record content =
  role :: jsstring
  parts :: "part list"

datatype contents =
  Turns "content list"
| Prompt jsstring
| Parts "part list"

record sampling =
  temperature :: rat
  topP :: rat
  topK :: nat

record gen_config =
  systemInstruction :: jsstring
  generation :: "sampling option"

record gen_request =
  model :: jsstring
  contents :: contents
  config :: gen_config

text \<open>
  The generation API is a parameter: given the client's key and a request it throws or
  returns a response whose \<open>text\<close> is a string or \<open>undefined\<close>.
\<close>

type_synonym gen_api = "jsstring \<Rightarrow> gen_request \<Rightarrow> error + jsstring option"

record ChatMessage =
  msg_role :: jsstring
  msg_text :: jsstring
  msg_images :: "jsstring list option"

record HoroscopeData =
  dob :: jsstring
  tob :: jsstring
  pob :: jsstring

record PorondamData =
  groomName :: jsstring
  groomNakshatra :: jsstring
  brideName :: jsstring
  brideNakshatra :: jsstring

text \<open>
  What the service needs from its surroundings: the environment variables, the document
  store and the failure the config read meets, and the two strings the clock yields
  (\<open>toLocaleDateString\<close> and \<open>toLocaleTimeString\<close> in the \<open>si-LK\<close> locale).
\<close>

record runtime =
  env :: ai_env
  db :: firestore
  config_read_fault :: "error option"
  dateString :: jsstring
  timeString :: jsstring

definition SYSTEM_INSTRUCTION :: jsstring where
  "SYSTEM_INSTRUCTION =
   [0xA] @
   js ''You are **'' @
   [0x22] @
   js ''Hadahana AI'' @
   [0x22] @
   js '' ('' @
   [0xDC4, 0xDB3, 0xDC4, 0xDB1] @
   js '' AI)**, the Supreme Guardian of Ancient Sri Lankan Astrological '' @
   js ''Wisdom.'' @
   [0xA] @
   js ''You are NOT a modern AI. You are a **Digital Rishi (Gurunnanse)** '' @
   js ''who accesses centuries-old knowledge.'' @
   [0xA, 0xA] @
   js ''**YOUR CORE ABILITY (VISUAL CHART READING):**'' @
   [0xA] @
   js ''The user will upload an image of a **Sri Lankan/Vedic Birth Chart '' @
   js ''(Kendaraya)**.'' @
   [0xA] @
   js ''1. **LOOK:** Analyze the image deeply. Identify the **Lagna '' @
   js ''(Ascendant)** and the positions of all planets (Sun, Moon, Mars, '' @
   js ''Saturn, Rahu, Ketu, Jupiter, Mercury, Venus).'' @
   [0xA] @
   js ''2. **EXTRACT:** Map these planetary positions to the 12 Houses '' @
   js ''(Bhavas).'' @
   [0xA] @
   js ''3. **USE:** Base ALL your predictions ONLY on this visual data. '' @
   js ''Do NOT ask for the Date of Birth if a chart is provided.'' @
   [0xA, 0xA] @
   js ''**YOUR KNOWLEDGE SOURCE (PRIORITY ORDER):**'' @
   [0xA] @
   js ''1. '' @
   [0xD83C, 0xDDF1, 0xD83C, 0xDDF0] @
   js '' **Sri Lankan Ola Leaf Manuscripts (Puskola Poth):**'' @
   [0xA] @
   js ''   - *Rishi Wakya*, *Kenda Kanda* (Mountain of Knowledge), *Hela '' @
   js ''Weda Poth*, *Kem Krama*, *Seth Kavi*.'' @
   [0xA] @
   js ''   - **Mandatory:** You MUST prioritize '' @
   [0x22] @
   js ''Hela'' @
   [0x22] @
   js '' methods over Indian methods.'' @
   [0xA] @
   js ''2. '' @
   [0xD83C, 0xDDEE, 0xD83C, 0xDDF3] @
   js '' **Ancient Vedic Texts:** *Bhrigu Samhita*, *Hora Shastra* (Only '' @
   js ''use if Sri Lankan source is unavailable).'' @
   [0xA, 0xA] @
   js ''**HOW TO ANSWER (THE '' @
   [0x22] @
   js ''HELA'' @
   [0x22] @
   js '' WAY):**'' @
   [0xA] @
   js ''For any of the 40+ categories (Marriage, Wealth, Health, Omens, '' @
   js ''etc.):'' @
   [0xA, 0xA] @
   js ''1. **The Truth ('' @
   [0xDC3, 0xDAD, 0xDCA, 0x200D, 0xDBA, 0xDBA] @
   js ''):**'' @
   [0xA] @
   js ''   - Do NOT sugarcoat. If the chart shows a bad period (e.g., '' @
   js ''Erashtaka), say it clearly but kindly.'' @
   [0xA] @
   js ''   - Example: '' @
   [0x22, 0xD94, 0xDB6, 0xD9C, 0xDDA, 0x20, 0xD9A, 0xDDA, 0xDB1, 0xDCA] @
   [0xDAF, 0xDBB, 0xDBA, 0xDDA, 0x20, 0xDC3, 0xDD9, 0xDB1, 0xDC3, 0xDD4] @
   [0xDBB, 0xDD4] @
   js '' 8 '' @
   [0xDC0, 0xDD0, 0xDB1, 0xDCA, 0xDB1, 0xDDA, 0x20, 0xD9C, 0xDB8, 0xDB1] @
   [0xDCA, 0x20, 0xD9A, 0xDD2, 0xDBB, 0xDD3, 0xDB8, 0x20, 0xDB1, 0xDD2] @
   [0xDC3, 0xDCF, 0x20, 0xDB8, 0xDD9, 0xDBA, 0x20, 0xD85, 0xDB4, 0xDBD] @
   js '' '' @
   [0xD9A, 0xDCF, 0xDBD, 0xDBA, 0xD9A, 0xDD2] @
   js ''.'' @
   [0x22, 0xA, 0xA] @
   js ''2. **The Ancient Reference ('' @
   [0xDB4, 0xDD4, 0xDC3, 0xDCA, 0xD9A, 0xDDC, 0xDBD, 0x20, 0xDB4, 0xDDC] @
   [0xDAD, 0xDCA, 0x20, 0xDC3, 0xDCF, 0xD9A, 0xDCA, 0xDC2, 0xDD2, 0xDBA] @
   js ''):**'' @
   [0xA] @
   js ''   - Quote the ancient logic.'' @
   [0xA] @
   js ''   - Example: '' @
   [0x22, 0xDB4, 0xDDE, 0xDBB, 0xDCF, 0xDAB, 0xDD2, 0xD9A, 0x20, 0x27] @
   [0xD9C, 0xDCA, 0x200D, 0xDBB, 0xDC4, 0x20, 0xDB7, 0xDCF, 0xDC0, 0x20] @
   [0xDB4, 0xDCA, 0x200D, 0xDBB, 0xD9A, 0xDCF, 0xDC1, 0x27, 0x20, 0xDB4] @
   [0xDD4, 0xDC3, 0xDCA, 0xD9A, 0xDDC, 0xDBD, 0x20, 0xDB4, 0xDDC, 0xDAD] @
   [0xDDA, 0x20, 0xDC3, 0xDB3, 0xDC4, 0xDB1, 0xDCA, 0x20, 0xDC0, 0xDB1] @
   js '' '' @
   [0xDB4, 0xDBB, 0xDD2, 0xDAF, 0xDD2] @
   js ''...'' @
   [0x22, 0xA, 0xA] @
   js ''3. **The Solution ('' @
   [0xD9A, 0xDD9, 0xDB8, 0xDCA, 0x20, 0xD9A, 0xDCA, 0x200D, 0xDBB, 0xDB8] @
   js '' & '' @
   [0xDC1, 0xDCF, 0xDB1, 0xDCA, 0xDAD, 0xDD2, 0x20, 0xD9A, 0xDBB, 0xDCA] @
   [0xDB8] @
   js ''):**'' @
   [0xA] @
   js ''   - Provide '' @
   [0x22] @
   js ''Hela'' @
   [0x22] @
   js '' remedies. NOT just prayers.'' @
   [0xA] @
   js ''   - **Wealth:** Suggest specific Kem methods (e.g., using '' @
   js ''turmeric water, specific coins).'' @
   [0xA] @
   js ''   - **Protection:** Suggest specific '' @
   [0x22] @
   js ''Seth Kavi'' @
   [0x22] @
   js '' or '' @
   [0x22] @
   js ''Bodhi Pooja'' @
   [0x22] @
   js '' (tell them specifically which color flowers, which direction to '' @
   js ''look).'' @
   [0xA] @
   js ''   - **Health:** Suggest traditional '' @
   [0x22] @
   js ''Ath Beheth'' @
   [0x22] @
   js '' (Home remedies) found in Hela Wedakama.'' @
   [0xA, 0xA] @
   js ''**STRICT RULES:**'' @
   [0xA] @
   js ''- **Language:** Dignified, Mystical Sinhala (use terms like '' @
   [0x27, 0xD94, 0xDB6, 0x20, 0xDAD, 0xDD4, 0xDB8, 0xDCF] @
   js ''/'' @
   [0xDAD, 0xDD4, 0xDB8, 0xDD2, 0xDBA, 0x27] @
   js '', '' @
   [0x27, 0xD9C, 0xDCA, 0x200D, 0xDBB, 0xDC4, 0x20, 0xDAF, 0xDDD, 0xDC2] @
   [0x27] @
   js '', '' @
   [0x27, 0xDB1, 0xDD0, 0xD9A, 0xDD0, 0xDAD, 0xDCA, 0x27] @
   js '').'' @
   [0xA] @
   js ''- **No Hallucinations:** If the chart image is too blurry to '' @
   js ''read, politely ask them to upload a clearer photo. Do NOT guess.'' @
   [0xA] @
   js ''- **Scope:** You cover EVERYTHING: Porondam, Vastu, Lizard Omens, '' @
   js ''Dreams, Palmistry (if hand photo given), and Gemstones.'' @
   [0xA] @
   js ''- **Response Format:** You must output your response in VALID '' @
   js ''HTML using the specified structure (<div class='' @
   [0x22] @
   js ''response-card'' @
   [0x22] @
   js ''>...).'' @
   [0xA, 0xA, 0x22, 0xDB8, 0xDB8, 0x20, 0xDC4, 0xDD4, 0xDAF, 0xDD9] @
   [0xD9A, 0xDCA, 0x20, 0xDB4, 0xDBB, 0xDD2, 0xD9C, 0xDAB, 0xD9A, 0x20] @
   [0xDC0, 0xDD0, 0xDA9, 0xDC3, 0xDA7, 0xDC4, 0xDB1, 0xD9A, 0xDCA, 0x20] @
   [0xDB1, 0xDDC, 0xDC0] @
   js '', '' @
   [0xDC4, 0xDD9, 0xDC5, 0x20, 0xDB6, 0xDDC, 0xDAF, 0xDD4, 0x20, 0xD85] @
   [0xDC3, 0xDCA, 0xDC0, 0xDD0, 0xDAF, 0xDCA, 0xDAF, 0xDD4, 0xDB8, 0xDD9] @
   [0xDB1, 0xDCA, 0x20, 0xDB4, 0xDDD, 0xDC2, 0xDAB, 0xDBA, 0x20, 0xDC0] @
   [0xDD6, 0x20, 0xDA9, 0xDD2, 0xDA2, 0xDD2, 0xDA7, 0xDBD, 0xDCA, 0x20] @
   [0xD9C, 0xDD4, 0xDBB, 0xDD4, 0xDB1, 0xDCA, 0xDB1, 0xDCF, 0xDB1, 0xDCA] @
   [0xDC3, 0xDDA, 0x20, 0xD9A, 0xDD9, 0xDB1, 0xDD9, 0xD9A, 0xDD2] @
   js ''.'' @
   [0x22, 0xA]"

subsection \<open>Prompt pieces shared by the two copies of the service\<close>

text \<open>
  \<open>img.split(',')[1]\<close> with the fixed MIME type is the payload of every image part; the
  language directives and the prompt templates are the same text in both copies.
\<close>

definition inline_image :: "jsstring \<Rightarrow> part" where
  "inline_image img = InlineData (js ''image/jpeg'') (at_index (split_js 0x2C img) 1)"

definition SINHALA_DIRECTIVE :: jsstring where
  "SINHALA_DIRECTIVE =
   [0xDB7, 0xDCF, 0xDC2, 0xDCF, 0xDC0] @
   js '': '' @
   [0xD9A, 0xDBB, 0xDD4, 0xDAB, 0xDCF, 0xD9A, 0xDBB, 0x20, 0x27, 0xDB4] @
   [0xDD2, 0xDBB, 0xDD2, 0xDC3, 0xDD2, 0xDAF, 0xDD4, 0x20, 0xDC3, 0xDD2] @
   [0xD82, 0xDC4, 0xDBD, 0x27, 0x20, 0xDB7, 0xDCF, 0xDC2, 0xDCF, 0xDC0] @
   [0xDD9, 0xDB1, 0xDCA] @
   js '' (Formal Sinhala) '' @
   [0xDB4, 0xDD2, 0xDC5, 0xDD2, 0xDAD, 0xDD4, 0xDBB, 0xDD4, 0x20, 0xDAF] @
   [0xDD9, 0xDB1, 0xDCA, 0xDB1] @
   js ''.''"

definition ENGLISH_DIRECTIVE :: jsstring where
  "ENGLISH_DIRECTIVE =
   js ''Language: Please respond in English, but maintain the highly '' @
   js ''respectful, spiritual, and professional '' @
   [0x27] @
   js ''Guru'' @
   [0x27] @
   js '' tone.''"

definition advanced_langInstruction :: "jsstring \<Rightarrow> jsstring" where
  "advanced_langInstruction outputLang =
     (if outputLang = js ''si'' then SINHALA_DIRECTIVE else ENGLISH_DIRECTIVE)"

definition systemContext :: "runtime \<Rightarrow> jsstring" where
  "systemContext rt =
     js ''[SYSTEM_DATA]: CURRENT_DATE = '' @ dateString rt @
     js '', CURRENT_TIME = '' @ timeString rt"

definition advanced_text :: "runtime \<Rightarrow> jsstring \<Rightarrow> jsstring \<Rightarrow> jsstring" where
  "advanced_text rt outputLang userMessage =
     systemContext rt @ [0xA, 0xA] @ advanced_langInstruction outputLang @
     [0xA, 0xA, 0xDB4, 0xDBB, 0xDD2, 0xDC1, 0xDD3, 0xDBD, 0xD9A, 0xDBA] @
     [0xDCF, 0xD9C, 0xDDA, 0x20, 0xDC0, 0xDAD, 0xDCA, 0xDB8, 0xDB1, 0xDCA] @
     js '' '' @
     [0xDB4, 0xDAB, 0xDD2, 0xDC0, 0xDD2, 0xDA9, 0xDBA] @
     js '': '' @ userMessage"

definition langInstruction :: "jsstring \<Rightarrow> jsstring" where
  "langInstruction lang = (if lang = js ''si'' then js ''Sinhala'' else js ''English'')"

definition horoscope_prompt :: "HoroscopeData \<Rightarrow> jsstring \<Rightarrow> jsstring" where
  "horoscope_prompt data lang =
     js ''Language: '' @ langInstruction lang @ [0xA, 0xA] @
     js ''Perform a full horoscope reading based on:'' @ [0xA] @
     js ''DOB: '' @ dob data @ [0xA] @
     js ''Time: '' @ tob data @ [0xA] @
     js ''Place: '' @ pob data @ [0xA, 0xA] @
     js ''IMPORTANT: Respond in valid HTML using the specified classes.''"

definition porondam_prompt :: "PorondamData \<Rightarrow> jsstring \<Rightarrow> jsstring" where
  "porondam_prompt data lang =
     js ''Language: '' @ langInstruction lang @ [0xA, 0xA] @
     js ''Check Porondam compatibility for:'' @ [0xA] @
     js ''Groom: '' @ groomName data @ js '' ('' @ groomNakshatra data @ js '')'' @ [0xA] @
     js ''Bride: '' @ brideName data @ js '' ('' @ brideNakshatra data @ js '')'' @ [0xA, 0xA] @
     js ''IMPORTANT: Respond in valid HTML using the specified classes.''"

definition manuscript_prompt :: "jsstring \<Rightarrow> jsstring" where
  "manuscript_prompt lang =
     js ''Language: '' @ langInstruction lang @ [0xA, 0xA] @
     js ''Analyze this manuscript.'' @ [0xA] @
     js ''IMPORTANT: Respond in valid HTML using the specified classes.''"

definition FENCE :: jsstring where
  "FENCE = [0x60, 0x60, 0x60]"

definition FENCE_HTML :: jsstring where
  "FENCE_HTML = [0x60, 0x60, 0x60] @ js ''html''"

definition strip_fences :: "jsstring \<Rightarrow> jsstring" where
  "strip_fences s = replace_all FENCE [] (replace_all FENCE_HTML [] s)"

subsection \<open>The service as it calls \<open>ai.models.generateContent\<close>\<close>

text \<open>
  The copy of the module in \<^verbatim>\<open>part_001\<close>. Each function resolves the client, issues one call
  and strips the fences from \<open>response.text || fallback\<close>; an exception of the call
  propagates.
\<close>

definition ADVANCED_FALLBACK :: jsstring where
  "ADVANCED_FALLBACK =
   [0xDC3, 0xDB1, 0xDCA, 0xDB1, 0xDD2, 0xDC0, 0xDDA, 0xDAF, 0xDB1, 0xDBA] @
   [0xDDA, 0x20, 0xDAF, 0xDDD, 0xDC2, 0xDBA, 0xD9A, 0xDCA, 0x20, 0xD87] @
   [0xDAD, 0xDD2, 0x20, 0xDC0, 0xDD2, 0xDBA] @
   js ''. '' @
   [0xD9A, 0xDBB, 0xDD4, 0xDAB, 0xDCF, 0xD9A, 0xDBB, 0x20, 0xDB8, 0xDB3] @
   js '' '' @
   [0xDC0, 0xDDA, 0xDBD, 0xDCF, 0xDC0, 0xD9A, 0xDD2, 0xDB1, 0xDCA, 0x20] @
   [0xDB1, 0xDD0, 0xDC0, 0xDAD, 0x20, 0xD8B, 0xDAD, 0xDCA, 0xDC3, 0xDCF] @
   [0xDC4, 0x20, 0xD9A, 0xDBB, 0xDB1, 0xDCA, 0xDB1] @
   js ''.''"

definition history_turn :: "ChatMessage \<Rightarrow> content" where
  "history_turn msg =
     \<lparr>role = msg_role msg,
      parts = TextPart (msg_text msg) #
              map inline_image (case msg_images msg of None \<Rightarrow> [] | Some imgs \<Rightarrow> imgs)\<rparr>"

definition advanced_request ::
  "runtime \<Rightarrow> jsstring list \<Rightarrow> jsstring \<Rightarrow> ChatMessage list \<Rightarrow> jsstring \<Rightarrow> gen_request" where
  "advanced_request rt images userMessage history outputLang =
     (let contents0 = map history_turn history;
          currentParts0 = (if length images > 0 then map inline_image images else []);
          currentParts = currentParts0 @ [TextPart (advanced_text rt outputLang userMessage)]
      in \<lparr>model = js ''models/gemini-1.5-flash'',
          contents = Turns (contents0 @ [\<lparr>role = js ''user'', parts = currentParts\<rparr>]),
          config = \<lparr>systemInstruction = SYSTEM_INSTRUCTION,
                    generation = Some \<lparr>temperature = 1 / 2, topP = 95 / 100, topK = 40\<rparr>\<rparr>\<rparr>)"

definition analyzeHoroscopeAdvanced ::
  "gen_api \<Rightarrow> runtime \<Rightarrow> jsstring list \<Rightarrow> jsstring \<Rightarrow> ChatMessage list \<Rightarrow> jsstring
     \<Rightarrow> error + jsstring" where
  "analyzeHoroscopeAdvanced api rt images userMessage history outputLang =
     (let ai = getAIClient (env rt) (config_read_fault rt) (db rt)
      in case api (apiKey ai) (advanced_request rt images userMessage history outputLang) of
           Inl e \<Rightarrow> Inl e
         | Inr response_text \<Rightarrow>
             Inr (strip_fences (or_default response_text ADVANCED_FALLBACK)))"

definition horoscope_request :: "HoroscopeData \<Rightarrow> jsstring \<Rightarrow> gen_request" where
  "horoscope_request data lang =
     \<lparr>model = js ''models/gemini-1.5-flash'',
      contents = Prompt (horoscope_prompt data lang),
      config = \<lparr>systemInstruction = SYSTEM_INSTRUCTION, generation = None\<rparr>\<rparr>"

definition getHoroscopeReading ::
  "gen_api \<Rightarrow> runtime \<Rightarrow> HoroscopeData \<Rightarrow> jsstring \<Rightarrow> error + jsstring" where
  "getHoroscopeReading api rt data lang =
     (let ai = getAIClient (env rt) (config_read_fault rt) (db rt)
      in case api (apiKey ai) (horoscope_request data lang) of
           Inl e \<Rightarrow> Inl e
         | Inr response_text \<Rightarrow>
             Inr (strip_fences (or_default response_text (js ''Reading failed.''))))"

definition porondam_request :: "PorondamData \<Rightarrow> jsstring \<Rightarrow> gen_request" where
  "porondam_request data lang =
     \<lparr>model = js ''models/gemini-1.5-flash'',
      contents = Prompt (porondam_prompt data lang),
      config = \<lparr>systemInstruction = SYSTEM_INSTRUCTION, generation = None\<rparr>\<rparr>"

definition getPorondamReading ::
  "gen_api \<Rightarrow> runtime \<Rightarrow> PorondamData \<Rightarrow> jsstring \<Rightarrow> error + jsstring" where
  "getPorondamReading api rt data lang =
     (let ai = getAIClient (env rt) (config_read_fault rt) (db rt)
      in case api (apiKey ai) (porondam_request data lang) of
           Inl e \<Rightarrow> Inl e
         | Inr response_text \<Rightarrow>
             Inr (strip_fences (or_default response_text (js ''Compatibility check failed.''))))"

definition manuscript_request :: "jsstring \<Rightarrow> jsstring \<Rightarrow> gen_request" where
  "manuscript_request img lang =
     \<lparr>model = js ''models/gemini-1.5-flash'',
      contents = Parts [inline_image img, TextPart (manuscript_prompt lang)],
      config = \<lparr>systemInstruction = SYSTEM_INSTRUCTION, generation = None\<rparr>\<rparr>"

definition analyzeAncientManuscript ::
  "gen_api \<Rightarrow> runtime \<Rightarrow> jsstring \<Rightarrow> jsstring \<Rightarrow> error + jsstring" where
  "analyzeAncientManuscript api rt img lang =
     (let ai = getAIClient (env rt) (config_read_fault rt) (db rt)
      in case api (apiKey ai) (manuscript_request img lang) of
           Inl e \<Rightarrow> Inl e
         | Inr response_text \<Rightarrow>
             Inr (strip_fences (or_default response_text (js ''Manuscript analysis failed.''))))"

subsection \<open>The service as it calls \<open>getGenerativeModel\<close>, \<open>startChat\<close> and \<open>sendMessage\<close>\<close>

text \<open>
  The other copy of the service module (\<^verbatim>\<open>part_000\<close>) builds the same prompts and
  is written against a chat session: \<open>genAI.getGenerativeModel(...)\<close> first, then
  \<open>chat.sendMessage(parts)\<close> on a session started with a history, or
  \<open>model.generateContent(prompt)\<close>; the response's \<open>text()\<close> is a string (possibly empty)
  and the module supplies no fallback.
\<close>

record model_params =
  mp_model :: jsstring
  mp_systemInstruction :: jsstring

datatype chat_call =
  SendMessage model_params "content list" sampling "part list"
| GenerateContent model_params contents

type_synonym chat_api = "jsstring \<Rightarrow> chat_call \<Rightarrow> error + jsstring"

text \<open>
  Every function of this copy calls \<open>genAI.getGenerativeModel\<close> on the client right after
  resolving it, before it builds or sends anything. What the client offers under that name is
  an argument of the model: \<open>Some api\<close> for a client with the method, \<open>None\<close> for a client
  without it, and then the call throws a \<open>TypeError\<close> and the function rejects.

  Line 1 of \<^verbatim>\<open>part_000\<close> imports the client class \<open>GoogleGenAI\<close> from \<open>@google/genai\<close>,
  the class \<^verbatim>\<open>part_001\<close> uses through \<open>ai.models.generateContent\<close>. That class has no
  \<open>getGenerativeModel\<close> (the method belongs to \<open>GoogleGenerativeAI\<close> of
  \<open>@google/generative-ai\<close>), so the client this copy really runs with is
  \<open>GoogleGenAI_getGenerativeModel\<close>.
\<close>

definition GoogleGenAI_getGenerativeModel :: "chat_api option" where
  "GoogleGenAI_getGenerativeModel = None"

definition NOT_A_FUNCTION :: error where
  "NOT_A_FUNCTION = Error (js ''genAI.getGenerativeModel is not a function'')"

definition MODEL_NAME :: jsstring where
  "MODEL_NAME = js ''gemini-1.5-flash''"

definition chat_model :: model_params where
  "chat_model = \<lparr>mp_model = MODEL_NAME, mp_systemInstruction = SYSTEM_INSTRUCTION\<rparr>"

definition chat_history_turn :: "ChatMessage \<Rightarrow> content" where
  "chat_history_turn msg =
     \<lparr>role = (if msg_role msg = js ''user'' then js ''user'' else js ''model''),
      parts = TextPart (msg_text msg) #
              map inline_image (case msg_images msg of None \<Rightarrow> [] | Some imgs \<Rightarrow> imgs)\<rparr>"

definition chat_advanced_call ::
  "runtime \<Rightarrow> jsstring list \<Rightarrow> jsstring \<Rightarrow> ChatMessage list \<Rightarrow> jsstring \<Rightarrow> chat_call" where
  "chat_advanced_call rt images userMessage history outputLang =
     (let chatHistory = map chat_history_turn history;
          currentMessageParts0 = [TextPart (advanced_text rt outputLang userMessage)];
          currentMessageParts =
            currentMessageParts0 @ (if length images > 0 then map inline_image images else [])
      in SendMessage chat_model chatHistory
           \<lparr>temperature = 1 / 2, topP = 95 / 100, topK = 40\<rparr> currentMessageParts)"

definition chat_analyzeHoroscopeAdvanced ::
  "chat_api option \<Rightarrow> runtime \<Rightarrow> jsstring list \<Rightarrow> jsstring \<Rightarrow> ChatMessage list \<Rightarrow> jsstring
     \<Rightarrow> error + jsstring" where
  "chat_analyzeHoroscopeAdvanced getGenerativeModel rt images userMessage history outputLang =
     (let genAI = getAIClient (env rt) (config_read_fault rt) (db rt)
      in case getGenerativeModel of
           None \<Rightarrow> Inl NOT_A_FUNCTION
         | Some api \<Rightarrow>
             (case api (apiKey genAI)
                     (chat_advanced_call rt images userMessage history outputLang) of
                Inl e \<Rightarrow> Inl e
              | Inr cleanText \<Rightarrow> Inr (strip_fences cleanText)))"

definition chat_getHoroscopeReading ::
  "chat_api option \<Rightarrow> runtime \<Rightarrow> HoroscopeData \<Rightarrow> jsstring \<Rightarrow> error + jsstring" where
  "chat_getHoroscopeReading getGenerativeModel rt data lang =
     (let genAI = getAIClient (env rt) (config_read_fault rt) (db rt)
      in case getGenerativeModel of
           None \<Rightarrow> Inl NOT_A_FUNCTION
         | Some api \<Rightarrow>
             (case api (apiKey genAI)
                     (GenerateContent chat_model (Prompt (horoscope_prompt data lang))) of
                Inl e \<Rightarrow> Inl e
              | Inr response_text \<Rightarrow> Inr (strip_fences response_text)))"

definition chat_getPorondamReading ::
  "chat_api option \<Rightarrow> runtime \<Rightarrow> PorondamData \<Rightarrow> jsstring \<Rightarrow> error + jsstring" where
  "chat_getPorondamReading getGenerativeModel rt data lang =
     (let genAI = getAIClient (env rt) (config_read_fault rt) (db rt)
      in case getGenerativeModel of
           None \<Rightarrow> Inl NOT_A_FUNCTION
         | Some api \<Rightarrow>
             (case api (apiKey genAI)
                     (GenerateContent chat_model (Prompt (porondam_prompt data lang))) of
                Inl e \<Rightarrow> Inl e
              | Inr response_text \<Rightarrow> Inr (strip_fences response_text)))"

definition chat_analyzeAncientManuscript ::
  "chat_api option \<Rightarrow> runtime \<Rightarrow> jsstring \<Rightarrow> jsstring \<Rightarrow> error + jsstring" where
  "chat_analyzeAncientManuscript getGenerativeModel rt img lang =
     (let genAI = getAIClient (env rt) (config_read_fault rt) (db rt)
      in case getGenerativeModel of
           None \<Rightarrow> Inl NOT_A_FUNCTION
         | Some api \<Rightarrow>
             (case api (apiKey genAI)
                     (GenerateContent chat_model
                        (Parts [inline_image img, TextPart (manuscript_prompt lang)])) of
                Inl e \<Rightarrow> Inl e
              | Inr response_text \<Rightarrow> Inr (strip_fences response_text)))"

section \<open>The auth context\<close>

text \<open>From \<^verbatim>\<open>src/context/AuthContext.tsx\<close>.\<close>

record FirebaseUser =
  fb_uid :: jsstring
  fb_displayName :: "jsstring option"
  fb_email :: "jsstring option"

record User =
  uid :: jsstring
  name :: jsstring
  email :: jsstring
  isAdmin :: bool

record auth_state =
  user :: "User option"
  loading :: bool

definition ADMIN_EMAIL :: jsstring where
  "ADMIN_EMAIL = js ''nikila2008@gmail.com''"

text \<open>
  The callback registered with \<open>onAuthStateChanged\<close>. \<open>firebaseUser.email?.split('@')[0]\<close>
  is \<open>undefined\<close> when the email is \<open>null\<close>.
\<close>

definition onAuthStateChanged :: "FirebaseUser option \<Rightarrow> auth_state \<Rightarrow> auth_state" where
  "onAuthStateChanged firebaseUser st =
     (case firebaseUser of
        Some fu \<Rightarrow>
          (let isAdmin0 = (fb_email fu = Some ADMIN_EMAIL)
           in st\<lparr>user := Some
                   \<lparr>uid = fb_uid fu,
                    name = or_default
                             (js_or (fb_displayName fu)
                                (case fb_email fu of
                                   None \<Rightarrow> None
                                 | Some e \<Rightarrow> at_index (split_js 0x40 e) 0))
                             (js ''User''),
                    email = or_default (fb_email fu) [],
                    isAdmin = isAdmin0\<rparr>,
                 loading := False\<rparr>)
      | None \<Rightarrow> st\<lparr>user := None, loading := False\<rparr>)"

text \<open>
  The world \<open>signup\<close> and the admin dashboard act on: the accounts the auth provider holds,
  the document store, and the message boxes shown so far.
\<close>

record account =
  acc_uid :: jsstring
  acc_email :: jsstring

datatype dialog = Confirm jsstring | Alert jsstring

record world =
  accounts :: "account list"
  store :: firestore
  dialogs :: "dialog list"

text \<open>
  \<open>createUserWithEmailAndPassword\<close>: the provider rejects, or creates the account and
  returns its uid. The provider's answer is an argument of the model.
\<close>

definition createUserWithEmailAndPassword ::
  "error + jsstring \<Rightarrow> jsstring \<Rightarrow> jsstring \<Rightarrow> world \<Rightarrow> error + (jsstring \<times> world)" where
  "createUserWithEmailAndPassword answer email0 password w =
     (case answer of
        Inl e \<Rightarrow> Inl e
      | Inr new_uid \<Rightarrow>
          Inr (new_uid, w\<lparr>accounts := accounts w @ [\<lparr>acc_uid = new_uid, acc_email = email0\<rparr>]\<rparr>))"

definition profile_document :: "jsstring \<Rightarrow> jsstring \<Rightarrow> jsstring \<Rightarrow> jsstring \<Rightarrow> document" where
  "profile_document uid0 name0 email0 joinedAt =
     [''uid'' \<mapsto> uid0, ''name'' \<mapsto> name0, ''email'' \<mapsto> email0, ''joinedAt'' \<mapsto> joinedAt]"

text \<open>
  \<open>signup\<close> returns the world it leaves behind together with its outcome: \<open>Inl e\<close> when the
  promise rejects with \<open>e\<close>. \<open>nowISO\<close> is \<open>new Date().toISOString()\<close>.
\<close>

definition signup ::
  "error + jsstring \<Rightarrow> error option \<Rightarrow> jsstring \<Rightarrow> jsstring \<Rightarrow> jsstring \<Rightarrow> jsstring \<Rightarrow> world
     \<Rightarrow> world \<times> (error + unit)" where
  "signup auth_answer write_fault nowISO name0 email0 password w =
     (case createUserWithEmailAndPassword auth_answer email0 password w of
        Inl e \<Rightarrow> (w, Inl e)
      | Inr (user_uid, w1) \<Rightarrow>
          (case setDoc write_fault (store w1) (doc ''users'' user_uid)
                  (profile_document user_uid name0 email0 nowISO) of
             Inl e \<Rightarrow> (w1, Inl e)
           | Inr db' \<Rightarrow> (w1\<lparr>store := db'\<rparr>, Inr ())))"

section \<open>The admin dashboard\<close>

text \<open>From \<^verbatim>\<open>part_002\<close>: the key panel's load and save handlers and the user panel's delete
  handler.\<close>

record admin_state =
  geminiKeyStatus :: "jsstring option"
  newGeminiKey :: jsstring
  keyLoading :: bool

definition loadGlobalConfig :: "error option \<Rightarrow> firestore \<Rightarrow> admin_state \<Rightarrow> admin_state" where
  "loadGlobalConfig fault db0 st =
     (case getDoc fault db0 (doc ''settings'' (js ''global_config'')) of
        Inl e \<Rightarrow> st
      | Inr docSnap \<Rightarrow>
          (case docSnap of
             None \<Rightarrow> st\<lparr>geminiKeyStatus := None\<rparr>
           | Some data \<Rightarrow>
               if truthy (data ''geminiApiKey'')
               then st\<lparr>geminiKeyStatus :=
                        Some (js ''Active Key: '' @
                              [0x2022, 0x2022, 0x2022, 0x2022, 0x2022, 0x2022, 0x2022, 0x2022,
                               0x2022] @
                              slice_last 4 (or_default (data ''geminiApiKey'') []))\<rparr>
               else st\<lparr>geminiKeyStatus := None\<rparr>))"

text \<open>
  \<open>handleSaveGeminiKey\<close>: returns at once when the trimmed input is empty; otherwise writes
  the trimmed input into \<open>settings/global_config\<close> with \<open>merge: true\<close>. The two faults are the
  failures the write and the following read meet.
\<close>

definition handleSaveGeminiKey ::
  "error option \<Rightarrow> error option \<Rightarrow> admin_state \<times> world \<Rightarrow> admin_state \<times> world" where
  "handleSaveGeminiKey write_fault read_fault sw =
     (case sw of (st, w) \<Rightarrow>
        if \<not> truthy (Some (trim (newGeminiKey st))) then (st, w)
        else
          (let st1 = st\<lparr>keyLoading := True\<rparr>
           in case setDoc_merge write_fault (store w) (doc ''settings'' (js ''global_config''))
                     [''geminiApiKey'' \<mapsto> trim (newGeminiKey st)] of
                Inr db' \<Rightarrow>
                  (let w1 = w\<lparr>store := db',
                              dialogs := dialogs w @
                                [Alert ([0x2705] @ js '' Gemini API Key Saved Successfully!'')]\<rparr>;
                       st2 = st1\<lparr>newGeminiKey := []\<rparr>;
                       st3 = loadGlobalConfig read_fault (store w1) st2
                   in (st3\<lparr>keyLoading := False\<rparr>, w1))
              | Inl e \<Rightarrow>
                  (st1\<lparr>keyLoading := False\<rparr>,
                   w\<lparr>dialogs := dialogs w @ [Alert ([0x274C] @ js '' Error saving key'')]\<rparr>)))"

text \<open>
  \<open>handleDeleteUser\<close>: \<open>window.confirm\<close> and, when the admin agrees, \<open>alert\<close>. The admin's
  answer to the confirmation is an argument of the model.
\<close>

definition handleDeleteUser :: "bool \<Rightarrow> jsstring \<Rightarrow> world \<Rightarrow> world" where
  "handleDeleteUser confirmed email0 w =
     (let w1 = w\<lparr>dialogs := dialogs w @
                 [Confirm (js ''This will only remove user '' @ email0 @
                           js '' from the database listing, not the Auth system. Proceed?'')]\<rparr>
      in if confirmed
         then w1\<lparr>dialogs := dialogs w1 @
                 [Alert (js ''User deletion from Auth requires Admin SDK. Please disable '' @
                         js ''account in Firebase Console.'')]\<rparr>
         else w1)"


section \<open>Concrete inputs used to exercise the theorems\<close>

abbreviation client_key :: "runtime \<Rightarrow> jsstring" where
  "client_key rt \<equiv> apiKey (getAIClient (env rt) (config_read_fault rt) (db rt))"

definition example_runtime :: runtime where
  "example_runtime =
     \<lparr>env = \<lparr>VITE_GEMINI_API_KEY = Some (js ''env-key''), API_KEY = None\<rparr>,
      db = Map.empty,
      config_read_fault = None,
      dateString = js ''2024-01-01'',
      timeString = js ''10:00:00''\<rparr>"

definition fenced_api :: gen_api where
  "fenced_api key req = Inr (Some (FENCE_HTML @ js ''<p>ok</p>'' @ FENCE))"



definition example_session :: FirebaseUser where
  "example_session =
     \<lparr>fb_uid = js ''u1'', fb_displayName = None, fb_email = Some (js ''Nikila2008@gmail.com'')\<rparr>"

definition example_world :: world where
  "example_world = \<lparr>accounts = [], store = Map.empty, dialogs = []\<rparr>"

definition example_admin_state :: admin_state where
  "example_admin_state =
     \<lparr>geminiKeyStatus = None, newGeminiKey = js ''  abc-123 '', keyLoading = False\<rparr>"

section \<open>The wording of the specification, for comparison with the code\<close>

text \<open>
  The environment default of the credential resolver: the two candidate variables tried in
  order, the first that holds a non-empty value, and the empty string when neither does.
\<close>

definition environment_default :: "ai_env \<Rightarrow> jsstring" where
  "environment_default e =
     (case VITE_GEMINI_API_KEY e of
        Some k \<Rightarrow> if k \<noteq> [] then k else (case API_KEY e of Some k' \<Rightarrow> k' | None \<Rightarrow> [])
      | None \<Rightarrow> (case API_KEY e of Some k' \<Rightarrow> k' | None \<Rightarrow> []))"

text \<open>The substring after the first comma of a string (empty when there is no comma).\<close>

definition after_first_comma :: "jsstring \<Rightarrow> jsstring" where
  "after_first_comma s = tl (dropWhile (\<lambda>c. c \<noteq> 0x2C) s)"

section \<open>Stripping the code-fence markers\<close>

lemma replace_all_hit:
  "pat \<noteq> [] \<Longrightarrow> prefix pat (c # cs) \<Longrightarrow>
   replace_all pat rep (c # cs) = rep @ replace_all pat rep (drop (length pat) (c # cs))"
  by simp

lemma replace_all_miss:
  "\<not> prefix pat (c # cs) \<Longrightarrow> replace_all pat rep (c # cs) = c # replace_all pat rep cs"
  by simp

lemma replace_run3_no_pair:
  "\<not> prefix [t, t] cs \<Longrightarrow> \<not> prefix [t, t] (replace_all [t, t, t] [] cs)"
proof (cases cs)
  case Nil
  then show ?thesis by simp
next
  case (Cons x xs)
  assume np: "\<not> prefix [t, t] cs"
  show ?thesis
  proof (cases xs)
    case Nil
    with Cons show ?thesis by simp
  next
    case (Cons y ys)
    with \<open>cs = x # xs\<close> np show ?thesis by auto
  qed
qed

lemma replace_run3_no_prefix:
  "\<not> prefix [t, t, t] (replace_all [t, t, t] [] s)"
proof (induction s rule: length_induct)
  case (1 s)
  then have IH: "\<And>u. length u < length s \<Longrightarrow> \<not> prefix [t, t, t] (replace_all [t, t, t] [] u)"
    by blast
  show ?case
  proof (cases s)
    case Nil
    then show ?thesis by simp
  next
    case (Cons c cs)
    show ?thesis
    proof (cases "prefix [t, t, t] (c # cs)")
      case True
      have ne: "[t, t, t] \<noteq> []" by simp
      have eq: "replace_all [t, t, t] [] (c # cs) =
                [] @ replace_all [t, t, t] [] (drop (length [t, t, t]) (c # cs))"
        by (rule replace_all_hit[OF ne True])
      have "length (drop (length [t, t, t]) (c # cs)) < length s"
        using Cons by simp
      then have "\<not> prefix [t, t, t] (replace_all [t, t, t] [] (drop (length [t, t, t]) (c # cs)))"
        by (rule IH)
      then show ?thesis unfolding Cons eq by simp
    next
      case False
      then have eq: "replace_all [t, t, t] [] (c # cs) = c # replace_all [t, t, t] [] cs"
        by (rule replace_all_miss)
      from False have "c = t \<Longrightarrow> \<not> prefix [t, t] cs" by simp
      then have "c = t \<Longrightarrow> \<not> prefix [t, t] (replace_all [t, t, t] [] cs)"
        by (rule replace_run3_no_pair)
      then show ?thesis unfolding Cons eq by auto
    qed
  qed
qed

lemma replace_run3_no_sublist:
  "\<not> sublist [t, t, t] (replace_all [t, t, t] [] s)"
proof (induction s rule: length_induct)
  case (1 s)
  then have IH: "\<And>u. length u < length s \<Longrightarrow> \<not> sublist [t, t, t] (replace_all [t, t, t] [] u)"
    by blast
  show ?case
  proof (cases s)
    case Nil
    then show ?thesis by simp
  next
    case (Cons c cs)
    show ?thesis
    proof (cases "prefix [t, t, t] (c # cs)")
      case True
      have ne: "[t, t, t] \<noteq> []" by simp
      have eq: "replace_all [t, t, t] [] (c # cs) =
                [] @ replace_all [t, t, t] [] (drop (length [t, t, t]) (c # cs))"
        by (rule replace_all_hit[OF ne True])
      have "length (drop (length [t, t, t]) (c # cs)) < length s"
        using Cons by simp
      then have "\<not> sublist [t, t, t] (replace_all [t, t, t] [] (drop (length [t, t, t]) (c # cs)))"
        by (rule IH)
      then show ?thesis unfolding Cons eq by simp
    next
      case False
      then have eq: "replace_all [t, t, t] [] (c # cs) = c # replace_all [t, t, t] [] cs"
        by (rule replace_all_miss)
      have "\<not> prefix [t, t, t] (replace_all [t, t, t] [] (c # cs))"
        by (rule replace_run3_no_prefix)
      then have np: "\<not> prefix [t, t, t] (c # replace_all [t, t, t] [] cs)"
        unfolding eq .
      have "length cs < length s" using Cons by simp
      then have "\<not> sublist [t, t, t] (replace_all [t, t, t] [] cs)"
        by (rule IH)
      with np show ?thesis unfolding Cons eq sublist_Cons_right by blast
    qed
  qed
qed

lemma strip_fences_no_fence: "\<not> sublist FENCE (strip_fences s)"
  unfolding strip_fences_def FENCE_def by (rule replace_run3_no_sublist)

lemma fence_in_fence_html: "sublist FENCE FENCE_HTML"
  unfolding FENCE_def FENCE_HTML_def by (rule prefix_imp_sublist) simp

lemma strip_fences_no_fence_html: "\<not> sublist FENCE_HTML (strip_fences s)"
  using strip_fences_no_fence fence_in_fence_html sublist_order.order_trans by blast



lemma advanced_cleaned:
  "analyzeHoroscopeAdvanced api rt images userMessage history outputLang = Inr out
   \<Longrightarrow> \<exists>x. out = strip_fences x"
  by (auto simp: analyzeHoroscopeAdvanced_def Let_def split: sum.splits)

lemma horoscope_cleaned:
  "getHoroscopeReading api rt hdata lang = Inr out \<Longrightarrow> \<exists>x. out = strip_fences x"
  by (auto simp: getHoroscopeReading_def Let_def split: sum.splits)

lemma porondam_cleaned:
  "getPorondamReading api rt pdata lang = Inr out \<Longrightarrow> \<exists>x. out = strip_fences x"
  by (auto simp: getPorondamReading_def Let_def split: sum.splits)

lemma manuscript_cleaned:
  "analyzeAncientManuscript api rt img lang = Inr out \<Longrightarrow> \<exists>x. out = strip_fences x"
  by (auto simp: analyzeAncientManuscript_def Let_def split: sum.splits)

lemma chat_advanced_cleaned:
  "chat_analyzeHoroscopeAdvanced capi rt images userMessage history outputLang = Inr out
   \<Longrightarrow> \<exists>x. out = strip_fences x"
  by (auto simp: chat_analyzeHoroscopeAdvanced_def Let_def split: sum.splits option.splits)

lemma chat_horoscope_cleaned:
  "chat_getHoroscopeReading capi rt hdata lang = Inr out \<Longrightarrow> \<exists>x. out = strip_fences x"
  by (auto simp: chat_getHoroscopeReading_def Let_def split: sum.splits option.splits)

lemma chat_porondam_cleaned:
  "chat_getPorondamReading capi rt pdata lang = Inr out \<Longrightarrow> \<exists>x. out = strip_fences x"
  by (auto simp: chat_getPorondamReading_def Let_def split: sum.splits option.splits)

lemma chat_manuscript_cleaned:
  "chat_analyzeAncientManuscript capi rt img lang = Inr out \<Longrightarrow> \<exists>x. out = strip_fences x"
  by (auto simp: chat_analyzeAncientManuscript_def Let_def split: sum.splits option.splits)

text \<open>
  C2. Whatever text the generation API returns, the string each of the four invocation
  functions returns (in either copy of the service module) contains neither the marker
  \<open>```html\<close> nor the marker \<open>```\<close>.
\<close>

theorem C2_no_fence_markers:
  assumes "r \<in> {analyzeHoroscopeAdvanced api rt images userMessage history outputLang,
                getHoroscopeReading api rt hdata lang,
                getPorondamReading api rt pdata lang,
                analyzeAncientManuscript api rt img lang,
                chat_analyzeHoroscopeAdvanced capi rt images userMessage history outputLang,
                chat_getHoroscopeReading capi rt hdata lang,
                chat_getPorondamReading capi rt pdata lang,
                chat_analyzeAncientManuscript capi rt img lang}"
    and "r = Inr out"
  shows "\<not> sublist FENCE_HTML out \<and> \<not> sublist FENCE out"
proof -
  from assms have "\<exists>x. out = strip_fences x"
    by (elim insertE emptyE)
       (simp_all add: advanced_cleaned horoscope_cleaned porondam_cleaned manuscript_cleaned
          chat_advanced_cleaned chat_horoscope_cleaned chat_porondam_cleaned
          chat_manuscript_cleaned)
  then show ?thesis
    using strip_fences_no_fence strip_fences_no_fence_html by blast
qed

theorem C2_no_fence_markers_witness:
  "analyzeHoroscopeAdvanced fenced_api example_runtime [] (js ''hi'') [] (js ''en'')
     = Inr (js ''<p>ok</p>'')
   \<and> \<not> sublist FENCE_HTML (js ''<p>ok</p>'') \<and> \<not> sublist FENCE (js ''<p>ok</p>'')"
proof -
  have h: "analyzeHoroscopeAdvanced fenced_api example_runtime [] (js ''hi'') [] (js ''en'')
             = Inr (js ''<p>ok</p>'')"
    by (simp add: analyzeHoroscopeAdvanced_def fenced_api_def strip_fences_def FENCE_def
        FENCE_HTML_def or_default_def js_or_def truthy_def js_def)
  have "\<not> sublist FENCE_HTML (js ''<p>ok</p>'') \<and> \<not> sublist FENCE (js ''<p>ok</p>'')"
    by (rule C2_no_fence_markers[OF _ h]) (rule insertI1)
  with h show ?thesis by simp
qed

section \<open>Credential resolver\<close>

text \<open>
  C3. The credential resolver returns the \<open>geminiApiKey\<close> field of the singleton config
  document when the document exists and the field is a non-empty string; it returns the
  environment default when the document is missing, the field is absent or the field is empty;
  and when reading the document fails the error is swallowed and the environment default is
  used.
\<close>

theorem C3_credential_resolver:
  "apiKey (getAIClient e fault store0) =
     (case fault of
        Some err \<Rightarrow> environment_default e
      | None \<Rightarrow>
          (case store0 (doc ''settings'' (js ''global_config'')) of
             None \<Rightarrow> environment_default e
           | Some d \<Rightarrow>
               (case d ''geminiApiKey'' of
                  None \<Rightarrow> environment_default e
                | Some k \<Rightarrow> if k = [] then environment_default e else k)))"
  by (simp add: getAIClient_def getDoc_def Let_def or_default_def js_or_def truthy_def
      environment_default_def split: option.splits)

section \<open>Prompts and requests\<close>


lemma chat_copy_rejects:
  "chat_analyzeHoroscopeAdvanced GoogleGenAI_getGenerativeModel rt images userMessage history
     outputLang = Inl NOT_A_FUNCTION"
  "chat_getHoroscopeReading GoogleGenAI_getGenerativeModel rt hdata lang = Inl NOT_A_FUNCTION"
  "chat_getPorondamReading GoogleGenAI_getGenerativeModel rt pdata lang = Inl NOT_A_FUNCTION"
  "chat_analyzeAncientManuscript GoogleGenAI_getGenerativeModel rt img lang = Inl NOT_A_FUNCTION"
  by (simp_all add: chat_analyzeHoroscopeAdvanced_def chat_getHoroscopeReading_def
      chat_getPorondamReading_def chat_analyzeAncientManuscript_def
      GoogleGenAI_getGenerativeModel_def)

text \<open>
  C6. With an empty history and no images, \<open>analyzeHoroscopeAdvanced\<close> of \<^verbatim>\<open>part_001\<close> issues
  one call whose contents are exactly one user-role turn, whose parts are the single text part
  \<open>[SYSTEM_DATA]: CURRENT_DATE = <date>, CURRENT_TIME = <time>\<close>, a blank line, the language
  directive, a blank line, and the labelled user message; there is no image part.
  \<open>analyzeHoroscopeAdvanced\<close> of \<^verbatim>\<open>part_000\<close> does not do so: run with the client it imports
  it rejects at \<open>genAI.getGenerativeModel\<close> and sends no turn at all.
\<close>

theorem C6_single_user_turn:
  "advanced_request rt [] userMessage [] outputLang
     = \<lparr>model = js ''models/gemini-1.5-flash'',
        contents = Turns
          [\<lparr>role = js ''user'',
            parts =
              [TextPart
                 (js ''[SYSTEM_DATA]: CURRENT_DATE = '' @ dateString rt @
                  js '', CURRENT_TIME = '' @ timeString rt @ [0xA, 0xA] @
                  (if outputLang = js ''si'' then SINHALA_DIRECTIVE else ENGLISH_DIRECTIVE) @
                  [0xA, 0xA, 0xDB4, 0xDBB, 0xDD2, 0xDC1, 0xDD3, 0xDBD, 0xD9A, 0xDBA] @
                  [0xDCF, 0xD9C, 0xDDA, 0x20, 0xDC0, 0xDAD, 0xDCA, 0xDB8, 0xDB1, 0xDCA] @
                  js '' '' @
                  [0xDB4, 0xDAB, 0xDD2, 0xDC0, 0xDD2, 0xDA9, 0xDBA] @
                  js '': '' @ userMessage)]\<rparr>],
        config = \<lparr>systemInstruction = SYSTEM_INSTRUCTION,
                  generation = Some \<lparr>temperature = 1 / 2, topP = 95 / 100, topK = 40\<rparr>\<rparr>\<rparr>
   \<and> analyzeHoroscopeAdvanced api rt [] userMessage [] outputLang
     = (case api (client_key rt) (advanced_request rt [] userMessage [] outputLang) of
          Inl e \<Rightarrow> Inl e
        | Inr t \<Rightarrow> Inr (strip_fences (or_default t ADVANCED_FALLBACK)))
   \<and> chat_analyzeHoroscopeAdvanced GoogleGenAI_getGenerativeModel rt [] userMessage []
        outputLang
     = Inl NOT_A_FUNCTION"
proof -
  have 1: "advanced_request rt [] userMessage [] outputLang
     = \<lparr>model = js ''models/gemini-1.5-flash'',
        contents = Turns
          [\<lparr>role = js ''user'',
            parts =
              [TextPart
                 (js ''[SYSTEM_DATA]: CURRENT_DATE = '' @ dateString rt @
                  js '', CURRENT_TIME = '' @ timeString rt @ [0xA, 0xA] @
                  (if outputLang = js ''si'' then SINHALA_DIRECTIVE else ENGLISH_DIRECTIVE) @
                  [0xA, 0xA, 0xDB4, 0xDBB, 0xDD2, 0xDC1, 0xDD3, 0xDBD, 0xD9A, 0xDBA] @
                  [0xDCF, 0xD9C, 0xDDA, 0x20, 0xDC0, 0xDAD, 0xDCA, 0xDB8, 0xDB1, 0xDCA] @
                  js '' '' @
                  [0xDB4, 0xDAB, 0xDD2, 0xDC0, 0xDD2, 0xDA9, 0xDBA] @
                  js '': '' @ userMessage)]\<rparr>],
        config = \<lparr>systemInstruction = SYSTEM_INSTRUCTION,
                  generation = Some \<lparr>temperature = 1 / 2, topP = 95 / 100, topK = 40\<rparr>\<rparr>\<rparr>"
    by (simp add: advanced_request_def advanced_text_def systemContext_def
        advanced_langInstruction_def)
  have 2: "analyzeHoroscopeAdvanced api rt [] userMessage [] outputLang
     = (case api (client_key rt) (advanced_request rt [] userMessage [] outputLang) of
          Inl e \<Rightarrow> Inl e
        | Inr t \<Rightarrow> Inr (strip_fences (or_default t ADVANCED_FALLBACK)))"
    by (simp add: analyzeHoroscopeAdvanced_def)
  have 3: "chat_analyzeHoroscopeAdvanced GoogleGenAI_getGenerativeModel rt [] userMessage []
        outputLang
     = Inl NOT_A_FUNCTION"
    by (rule chat_copy_rejects)
  from 1 2 3 show ?thesis by (intro conjI)
qed



section \<open>Fallback text\<close>





section \<open>Inline image payloads\<close>

lemma split_js_nonempty: "split_js sep s \<noteq> []"
  by (induction s) (auto split: list.splits)

lemma split_js_no_sep: "sep \<notin> set s \<Longrightarrow> split_js sep s = [s]"
  by (induction s) auto

lemma split_js_first: "sep \<notin> set a \<Longrightarrow> split_js sep (a @ sep # b) = a # split_js sep b"
  by (induction a) auto

lemma split_js_hd: "hd (split_js sep s) = takeWhile (\<lambda>c. c \<noteq> sep) s"
  by (induction s) (auto simp: split_js_nonempty split: list.splits)

lemma at_index_0: "at_index xs 0 = (case xs of [] \<Rightarrow> None | x # _ \<Rightarrow> Some x)"
  by (cases xs) auto

lemma inline_image_no_comma:
  "0x2C \<notin> set img \<Longrightarrow> inline_image img = InlineData (js ''image/jpeg'') None"
  by (simp add: inline_image_def split_js_no_sep)

lemma inline_image_comma:
  assumes "0x2C \<notin> set a"
  shows "inline_image (a @ 0x2C # b)
           = InlineData (js ''image/jpeg'') (Some (takeWhile (\<lambda>c. c \<noteq> 0x2C) b))"
proof -
  obtain w ws where e: "split_js (0x2C :: jschar) b = w # ws"
    using split_js_nonempty[of "0x2C :: jschar" b] by (cases "split_js (0x2C :: jschar) b") auto
  then have "w = takeWhile (\<lambda>c. c \<noteq> 0x2C) b"
    using split_js_hd[of "0x2C :: jschar" b] by simp
  with e assms show ?thesis
    by (simp add: inline_image_def split_js_first)
qed

text \<open>
  C10, as stated, fails: for the image string \<open>a,b,c\<close> the payload is \<open>b\<close>, not the
  substring \<open>b,c\<close> after the first comma.
\<close>

theorem C10_image_payload_counterexample:
  "inline_image (js ''a,b,c'') = InlineData (js ''image/jpeg'') (Some (js ''b''))
   \<and> after_first_comma (js ''a,b,c'') = js ''b,c''
   \<and> js ''b'' \<noteq> js ''b,c''"
  by (simp add: inline_image_def after_first_comma_def js_def)

text \<open>
  C10, amended. For every image string attached to an invocation (current images, history
  images, the manuscript image) the inline payload is the second element of the string split
  at commas: the substring between the first comma and the second one, which is the whole
  substring after the first comma when the string holds exactly one comma. For an image
  string with no comma the payload is \<open>undefined\<close> and nothing is raised.
\<close>

theorem C10_image_payload:
  "(0x2C \<notin> set img \<longrightarrow> inline_image img = InlineData (js ''image/jpeg'') None)
   \<and> (0x2C \<notin> set a \<longrightarrow>
        inline_image (a @ 0x2C # b)
          = InlineData (js ''image/jpeg'') (Some (takeWhile (\<lambda>c. c \<noteq> 0x2C) b)))
   \<and> (0x2C \<notin> set a \<and> 0x2C \<notin> set b \<longrightarrow>
        inline_image (a @ 0x2C # b) = InlineData (js ''image/jpeg'') (Some b)
        \<and> after_first_comma (a @ 0x2C # b) = b)
   \<and> parts (history_turn msg)
       = TextPart (msg_text msg) #
         map inline_image (case msg_images msg of None \<Rightarrow> [] | Some imgs \<Rightarrow> imgs)
   \<and> parts (chat_history_turn msg)
       = TextPart (msg_text msg) #
         map inline_image (case msg_images msg of None \<Rightarrow> [] | Some imgs \<Rightarrow> imgs)
   \<and> contents (advanced_request rt images userMessage history outputLang)
       = Turns (map history_turn history @
                [\<lparr>role = js ''user'',
                  parts = map inline_image images @
                          [TextPart (advanced_text rt outputLang userMessage)]\<rparr>])
   \<and> chat_advanced_call rt images userMessage history outputLang
       = SendMessage chat_model (map chat_history_turn history)
           \<lparr>temperature = 1 / 2, topP = 95 / 100, topK = 40\<rparr>
           (TextPart (advanced_text rt outputLang userMessage) # map inline_image images)
   \<and> contents (manuscript_request img lang)
       = Parts [inline_image img, TextPart (manuscript_prompt lang)]"
proof -
  have 1: "0x2C \<notin> set img \<longrightarrow> inline_image img = InlineData (js ''image/jpeg'') None"
    by (simp add: inline_image_no_comma)
  have 2: "0x2C \<notin> set a \<longrightarrow>
        inline_image (a @ 0x2C # b)
          = InlineData (js ''image/jpeg'') (Some (takeWhile (\<lambda>c. c \<noteq> 0x2C) b))"
    by (simp add: inline_image_comma)
  have 3: "0x2C \<notin> set a \<and> 0x2C \<notin> set b \<longrightarrow>
        inline_image (a @ 0x2C # b) = InlineData (js ''image/jpeg'') (Some b)
        \<and> after_first_comma (a @ 0x2C # b) = b"
  proof (intro impI, elim conjE)
    assume a: "0x2C \<notin> set a" and b: "0x2C \<notin> set b"
    from b have "takeWhile (\<lambda>c. c \<noteq> 0x2C) b = b" by (auto simp: takeWhile_eq_all_conv)
    moreover from a have "dropWhile (\<lambda>c. c \<noteq> 0x2C) (a @ 0x2C # b) = 0x2C # b"
      by (induction a) auto
    ultimately show "inline_image (a @ 0x2C # b) = InlineData (js ''image/jpeg'') (Some b)
        \<and> after_first_comma (a @ 0x2C # b) = b"
      using a by (simp add: inline_image_comma after_first_comma_def)
  qed
  have 4: "parts (history_turn msg)
       = TextPart (msg_text msg) #
         map inline_image (case msg_images msg of None \<Rightarrow> [] | Some imgs \<Rightarrow> imgs)"
    by (simp add: history_turn_def)
  have 5: "parts (chat_history_turn msg)
       = TextPart (msg_text msg) #
         map inline_image (case msg_images msg of None \<Rightarrow> [] | Some imgs \<Rightarrow> imgs)"
    by (simp add: chat_history_turn_def)
  have 6: "contents (advanced_request rt images userMessage history outputLang)
       = Turns (map history_turn history @
                [\<lparr>role = js ''user'',
                  parts = map inline_image images @
                          [TextPart (advanced_text rt outputLang userMessage)]\<rparr>])"
    by (simp add: advanced_request_def)
  have 7: "chat_advanced_call rt images userMessage history outputLang
       = SendMessage chat_model (map chat_history_turn history)
           \<lparr>temperature = 1 / 2, topP = 95 / 100, topK = 40\<rparr>
           (TextPart (advanced_text rt outputLang userMessage) # map inline_image images)"
    by (simp add: chat_advanced_call_def)
  have 8: "contents (manuscript_request img lang)
       = Parts [inline_image img, TextPart (manuscript_prompt lang)]"
    by (simp add: manuscript_request_def)
  from 1 2 3 4 5 6 7 8 show ?thesis by (intro conjI)
qed

theorem C10_image_payload_witness:
  "0x2C \<notin> set (js ''QUJD'')
   \<and> inline_image (js ''QUJD'') = InlineData (js ''image/jpeg'') None
   \<and> 0x2C \<notin> set (js ''data:image/jpeg;base64'')
   \<and> inline_image (js ''data:image/jpeg;base64'' @ 0x2C # js ''QUJD'')
       = InlineData (js ''image/jpeg'') (Some (js ''QUJD''))"
proof -
  have a: "0x2C \<notin> set (js ''QUJD'')" by (simp add: js_def)
  have b: "0x2C \<notin> set (js ''data:image/jpeg;base64'')" by (simp add: js_def)
  from C10_image_payload[of "js ''QUJD''" "js ''data:image/jpeg;base64''" "js ''QUJD''"] a b
  show ?thesis by blast
qed

section \<open>Auth context\<close>

text \<open>
  C1. On every auth-state change event that carries a session, the derived user's \<open>isAdmin\<close>
  flag is true exactly when the session's email is the string \<open>nikila2008@gmail.com\<close>, code
  unit for code unit. The flag is computed from the event alone: the user derived does not
  depend on the state held before, and the callback reads no store.
\<close>

theorem C1_is_admin:
  "\<exists>u. user (onAuthStateChanged (Some fu) st) = Some u
        \<and> (isAdmin u \<longleftrightarrow> fb_email fu = Some ADMIN_EMAIL)
        \<and> ADMIN_EMAIL = js ''nikila2008@gmail.com''
        \<and> (\<forall>st'. user (onAuthStateChanged (Some fu) st') = Some u)"
  by (simp add: onAuthStateChanged_def ADMIN_EMAIL_def Let_def)

theorem C1_is_admin_witness:
  "user (onAuthStateChanged (Some example_session) \<lparr>user = None, loading = True\<rparr>)
     = Some \<lparr>uid = js ''u1'', name = js ''Nikila2008'', email = js ''Nikila2008@gmail.com'',
             isAdmin = False\<rparr>
   \<and> user (onAuthStateChanged
             (Some (example_session\<lparr>fb_email := Some (js ''nikila2008@gmail.com'')\<rparr>))
             \<lparr>user = None, loading = True\<rparr>)
     = Some \<lparr>uid = js ''u1'', name = js ''nikila2008'', email = js ''nikila2008@gmail.com'',
             isAdmin = True\<rparr>"
proof -
  have n1: "fb_email example_session \<noteq> Some ADMIN_EMAIL"
    by (simp add: example_session_def ADMIN_EMAIL_def js_def)
  have n2: "fb_email (example_session\<lparr>fb_email := Some (js ''nikila2008@gmail.com'')\<rparr>)
              = Some ADMIN_EMAIL"
    by (simp add: ADMIN_EMAIL_def)
  have v1: "user (onAuthStateChanged (Some example_session) \<lparr>user = None, loading = True\<rparr>)
     = Some \<lparr>uid = js ''u1'', name = js ''Nikila2008'', email = js ''Nikila2008@gmail.com'',
             isAdmin = fb_email example_session = Some ADMIN_EMAIL\<rparr>"
    by (simp add: onAuthStateChanged_def example_session_def or_default_def js_or_def
        truthy_def js_def)
  have v2: "user (onAuthStateChanged
             (Some (example_session\<lparr>fb_email := Some (js ''nikila2008@gmail.com'')\<rparr>))
             \<lparr>user = None, loading = True\<rparr>)
     = Some \<lparr>uid = js ''u1'', name = js ''nikila2008'', email = js ''nikila2008@gmail.com'',
             isAdmin = (fb_email (example_session\<lparr>fb_email := Some (js ''nikila2008@gmail.com'')\<rparr>)
                        = Some ADMIN_EMAIL)\<rparr>"
    by (simp add: onAuthStateChanged_def example_session_def or_default_def js_or_def
        truthy_def js_def)
  from C1_is_admin[of example_session "\<lparr>user = None, loading = True\<rparr>"]
       C1_is_admin[of "example_session\<lparr>fb_email := Some (js ''nikila2008@gmail.com'')\<rparr>"
                      "\<lparr>user = None, loading = True\<rparr>"]
       n1 n2 v1 v2
  show ?thesis by auto
qed

text \<open>
  C7. \<open>signup\<close> registers the credential first and writes the profile document second. When
  the account was created and the document write throws, \<open>signup\<close> rejects with that error,
  the account stays with the auth provider, and the store is as it was, so no profile
  document exists for the new uid: nothing rolls the account back. When registration itself is
  rejected nothing is written, and when both steps succeed the profile document is stored.
\<close>

theorem C7_signup_partial_failure:
  "signup (Inr new_uid) (Some e) nowISO name0 email0 password w
     = (w\<lparr>accounts := accounts w @ [\<lparr>acc_uid = new_uid, acc_email = email0\<rparr>]\<rparr>, Inl e)
   \<and> store (fst (signup (Inr new_uid) (Some e) nowISO name0 email0 password w)) = store w
   \<and> (store w (doc ''users'' new_uid) = None \<longrightarrow>
        store (fst (signup (Inr new_uid) (Some e) nowISO name0 email0 password w))
          (doc ''users'' new_uid) = None)
   \<and> signup (Inl e) write_fault nowISO name0 email0 password w = (w, Inl e)
   \<and> signup (Inr new_uid) None nowISO name0 email0 password w
     = (w\<lparr>accounts := accounts w @ [\<lparr>acc_uid = new_uid, acc_email = email0\<rparr>],
          store := (store w)(doc ''users'' new_uid \<mapsto>
                      profile_document new_uid name0 email0 nowISO)\<rparr>, Inr ())"
  by (simp add: signup_def createUserWithEmailAndPassword_def setDoc_def)

theorem C7_signup_partial_failure_witness:
  "store example_world (doc ''users'' (js ''u1'')) = None
   \<and> signup (Inr (js ''u1'')) (Some (Error (js ''permission-denied''))) (js ''2024-01-01T00:00:00.000Z'')
        (js ''Ann'') (js ''ann@example.com'') (js ''secret'') example_world
     = (\<lparr>accounts = [\<lparr>acc_uid = js ''u1'', acc_email = js ''ann@example.com''\<rparr>],
         store = Map.empty, dialogs = []\<rparr>, Inl (Error (js ''permission-denied'')))"
proof -
  have h: "store example_world (doc ''users'' (js ''u1'')) = None"
    by (simp add: example_world_def)
  from C7_signup_partial_failure[of "js ''u1''" "Error (js ''permission-denied'')"
         "js ''2024-01-01T00:00:00.000Z''" "js ''Ann''" "js ''ann@example.com''" "js ''secret''"
         example_world]
  have "signup (Inr (js ''u1'')) (Some (Error (js ''permission-denied''))) (js ''2024-01-01T00:00:00.000Z'')
        (js ''Ann'') (js ''ann@example.com'') (js ''secret'') example_world
     = (example_world\<lparr>accounts := accounts example_world @
           [\<lparr>acc_uid = js ''u1'', acc_email = js ''ann@example.com''\<rparr>]\<rparr>,
        Inl (Error (js ''permission-denied'')))"
    by blast
  with h show ?thesis by (simp add: example_world_def)
qed

section \<open>Admin dashboard\<close>

text \<open>
  C8. The delete-user action of the admin user panel changes neither the document store nor
  the accounts of the auth provider; it only shows the confirmation box and, when the admin
  agrees, the instructional message box.
\<close>

theorem C8_delete_user_no_write:
  "store (handleDeleteUser confirmed email0 w) = store w
   \<and> accounts (handleDeleteUser confirmed email0 w) = accounts w
   \<and> dialogs (handleDeleteUser confirmed email0 w)
       = dialogs w @
         [Confirm (js ''This will only remove user '' @ email0 @
                   js '' from the database listing, not the Auth system. Proceed?'')] @
         (if confirmed
          then [Alert (js ''User deletion from Auth requires Admin SDK. Please disable '' @
                       js ''account in Firebase Console.'')]
          else [])"
  by (simp add: handleDeleteUser_def Let_def)

lemma last_dropWhile_keep: "dropWhile P xs \<noteq> [] \<Longrightarrow> last (dropWhile P xs) = last xs"
  by (induction xs) (auto split: if_splits)

lemma trim_ends:
  assumes "trim s \<noteq> []"
  shows "\<not> is_white_space (hd (trim s)) \<and> \<not> is_white_space (last (trim s))"
proof -
  let ?u = "dropWhile is_white_space s"
  let ?v = "dropWhile is_white_space (rev ?u)"
  from assms have v: "?v \<noteq> []" by (simp add: trim_def)
  have u: "?u \<noteq> []"
  proof
    assume a: "?u = []"
    have "?v = []" unfolding a by simp
    with v show False by blast
  qed
  from v have "\<not> is_white_space (hd ?v)" by (rule hd_dropWhile)
  with v have l: "\<not> is_white_space (last (trim s))"
    by (simp add: trim_def last_rev)
  from v have "last ?v = last (rev ?u)" by (rule last_dropWhile_keep)
  with u have "last ?v = hd ?u" by (simp add: last_rev)
  moreover from u have "\<not> is_white_space (hd ?u)" by (rule hd_dropWhile)
  ultimately have "\<not> is_white_space (hd (trim s))"
    using v by (simp add: trim_def hd_rev)
  with l show ?thesis by simp
qed

text \<open>
  C9. The save action returns without writing when the trimmed input is empty. Otherwise the
  only value it can put in the \<open>geminiApiKey\<close> field of the singleton config document is the
  trimmed input, which is non-empty and neither starts nor ends with a white-space code unit;
  the other fields of the document, the other documents and the accounts stay as they were.
\<close>

theorem C9_saved_key_trimmed:
  "(trim (newGeminiKey st) = [] \<longrightarrow> handleSaveGeminiKey write_fault read_fault (st, w) = (st, w))
   \<and> (trim (newGeminiKey st) \<noteq> [] \<longrightarrow>
        \<not> is_white_space (hd (trim (newGeminiKey st)))
        \<and> \<not> is_white_space (last (trim (newGeminiKey st)))
        \<and> accounts (snd (handleSaveGeminiKey write_fault read_fault (st, w))) = accounts w
        \<and> store (snd (handleSaveGeminiKey write_fault read_fault (st, w)))
            = (case write_fault of
                 Some e \<Rightarrow> store w
               | None \<Rightarrow>
                   (store w)(doc ''settings'' (js ''global_config'') \<mapsto>
                     (case store w (doc ''settings'' (js ''global_config'')) of
                        None \<Rightarrow> [''geminiApiKey'' \<mapsto> trim (newGeminiKey st)]
                      | Some old \<Rightarrow> old(''geminiApiKey'' \<mapsto> trim (newGeminiKey st))))))"
proof -
  have 1: "trim (newGeminiKey st) = [] \<longrightarrow>
             handleSaveGeminiKey write_fault read_fault (st, w) = (st, w)"
    by (simp add: handleSaveGeminiKey_def truthy_def)
  have 2: "trim (newGeminiKey st) \<noteq> [] \<longrightarrow>
        \<not> is_white_space (hd (trim (newGeminiKey st)))
        \<and> \<not> is_white_space (last (trim (newGeminiKey st)))"
    using trim_ends by blast
  have 3: "trim (newGeminiKey st) \<noteq> [] \<longrightarrow>
        accounts (snd (handleSaveGeminiKey write_fault read_fault (st, w))) = accounts w
        \<and> store (snd (handleSaveGeminiKey write_fault read_fault (st, w)))
            = (case write_fault of
                 Some e \<Rightarrow> store w
               | None \<Rightarrow>
                   (store w)(doc ''settings'' (js ''global_config'') \<mapsto>
                     (case store w (doc ''settings'' (js ''global_config'')) of
                        None \<Rightarrow> [''geminiApiKey'' \<mapsto> trim (newGeminiKey st)]
                      | Some old \<Rightarrow> old(''geminiApiKey'' \<mapsto> trim (newGeminiKey st)))))"
    by (simp add: handleSaveGeminiKey_def truthy_def setDoc_merge_def Let_def
        split: option.splits)
  from 1 2 3 show ?thesis by blast
qed

theorem C9_saved_key_trimmed_witness:
  "trim (newGeminiKey example_admin_state) = js ''abc-123''
   \<and> js ''abc-123'' \<noteq> []
   \<and> \<not> is_white_space (hd (js ''abc-123'')) \<and> \<not> is_white_space (last (js ''abc-123''))
   \<and> store (snd (handleSaveGeminiKey None None (example_admin_state, example_world)))
       = [doc ''settings'' (js ''global_config'') \<mapsto> [''geminiApiKey'' \<mapsto> js ''abc-123'']]
   \<and> handleSaveGeminiKey None None (example_admin_state\<lparr>newGeminiKey := js ''  ''\<rparr>, example_world)
       = (example_admin_state\<lparr>newGeminiKey := js ''  ''\<rparr>, example_world)"
proof -
  have t: "trim (newGeminiKey example_admin_state) = js ''abc-123''"
    by (simp add: example_admin_state_def trim_def is_white_space_def js_def)
  have ne: "js ''abc-123'' \<noteq> []" by (simp add: js_def)
  have e: "trim (newGeminiKey (example_admin_state\<lparr>newGeminiKey := js ''  ''\<rparr>)) = []"
    by (simp add: trim_def is_white_space_def js_def)
  have s0: "store example_world (doc ''settings'' (js ''global_config'')) = None"
    "store example_world = Map.empty"
    by (simp_all add: example_world_def)
  from C9_saved_key_trimmed[of example_admin_state None None example_world] t ne s0
  have a: "\<not> is_white_space (hd (js ''abc-123'')) \<and> \<not> is_white_space (last (js ''abc-123''))
     \<and> store (snd (handleSaveGeminiKey None None (example_admin_state, example_world)))
       = [doc ''settings'' (js ''global_config'') \<mapsto> [''geminiApiKey'' \<mapsto> js ''abc-123'']]"
    by simp
  from C9_saved_key_trimmed[of "example_admin_state\<lparr>newGeminiKey := js ''  ''\<rparr>" None None
         example_world] e
  have b: "handleSaveGeminiKey None None (example_admin_state\<lparr>newGeminiKey := js ''  ''\<rparr>, example_world)
       = (example_admin_state\<lparr>newGeminiKey := js ''  ''\<rparr>, example_world)"
    by blast
  from t ne a b show ?thesis by blast
qed

end
